theory Spec2Isabelle
  imports Main
begin

section \<open>The document object model used by \<open>create_sow.py\<close>\<close>

text \<open>
  \<open>create_sow.py\<close> is one function, \<open>create_document\<close>, that drives the
  python-docx object model: it creates a document, appends headings, paragraphs and
  tables, fills and styles them through the handles the library returns, and saves the
  result under a fixed file name. The library is not part of the repository; the part
  of it the script calls is modelled here as an in-memory tree.

  \<^item> A run is a piece of text with tri-state \<open>bold\<close> and \<open>italic\<close> flags
    (\<open>None\<close>: not set, inherited from the style).
  \<^item> A paragraph has an optional style name, an optional alignment and its runs.
    A heading is a paragraph whose style is \<open>Title\<close> or \<open>Heading n\<close>; a bullet
    item is a paragraph whose style is \<open>List Bullet\<close>.
  \<^item> A table has an optional style name and rows of cells; a cell is a list of
    paragraphs, and a fresh cell holds one empty paragraph.
  \<^item> The document body is the list of its paragraphs and tables, top to bottom.

  Style names are stored as given (the default template defines every style the
  script names, so the lookup in the library cannot fail there).
\<close>

datatype error = IndexError | ValueError | AttributeError | IOError

datatype wd_paragraph_alignment = LEFT | CENTER | RIGHT | JUSTIFY

record run =
  run_text :: string
  bold :: "bool option"
  italic :: "bool option"

record par =
  style :: "string option"
  alignment :: "wd_paragraph_alignment option"
  runs :: "run list"

type_synonym cell = "par list"

record tbl =
  table_style :: "string option"
  rows :: "cell list list"

datatype element = Paragraph par | Table tbl

record document =
  body :: "element list"

text \<open>
  The library hands out proxy objects that refer to nodes of the tree. A handle to a
  body element is its position in the body; a handle to a run is the paragraph's handle
  and the run's position in it. The script only ever uses a handle on the element it
  was returned for; asking a paragraph for rows or a table for runs would be an
  \<open>AttributeError\<close> in Python, and that is what the model answers.
\<close>

type_synonym handle = nat

type_synonym run_handle = "handle \<times> nat"

subsection \<open>Statements: state passing with exceptions\<close>

text \<open>
  A statement takes the document and either raises (\<open>Inl\<close>) or returns a value and
  the updated document. \<open>and_then\<close> is sequencing that binds the value returned,
  \<open>stmt\<close> drops a returned value, \<open>do_all\<close> runs statements in order and stops at the
  first exception.
\<close>

type_synonym 'a action = "document \<Rightarrow> error + ('a \<times> document)"

definition return :: "'a \<Rightarrow> 'a action" where
  "return x = (\<lambda>d. Inr (x, d))"

definition and_then :: "'a action \<Rightarrow> ('a \<Rightarrow> 'b action) \<Rightarrow> 'b action" where
  "and_then m f = (\<lambda>d. case m d of Inl e \<Rightarrow> Inl e | Inr (x, d') \<Rightarrow> f x d')"

definition stmt :: "'a action \<Rightarrow> unit action" where
  "stmt m = and_then m (\<lambda>_. return ())"

fun do_all :: "unit action list \<Rightarrow> unit action" where
  "do_all [] = return ()"
| "do_all (m # ms) = and_then m (\<lambda>_. do_all ms)"

subsection \<open>Indexing\<close>

text \<open>
  \<open>xs[i]\<close> raises \<open>IndexError\<close> out of range. Every index the script uses is a
  literal or an \<open>enumerate\<close> counter, so indices are natural numbers.
\<close>

fun update_at :: "nat \<Rightarrow> ('a \<Rightarrow> error + 'a) \<Rightarrow> 'a list \<Rightarrow> error + 'a list" where
  "update_at i f [] = Inl IndexError"
| "update_at i f (x # xs) =
     (if i = 0 then (case f x of Inl e \<Rightarrow> Inl e | Inr y \<Rightarrow> Inr (y # xs))
      else (case update_at (i - 1) f xs of Inl e \<Rightarrow> Inl e | Inr ys \<Rightarrow> Inr (x # ys)))"

definition nth_or_raise :: "'a list \<Rightarrow> nat \<Rightarrow> error + 'a" where
  "nth_or_raise xs i = (if i < length xs then Inr (xs ! i) else Inl IndexError)"

definition on_body :: "handle \<Rightarrow> (element \<Rightarrow> error + element) \<Rightarrow> unit action" where
  "on_body h f = (\<lambda>d.
     case update_at h f (body d) of
       Inl e \<Rightarrow> Inl e
     | Inr b \<Rightarrow> Inr ((), d\<lparr>body := b\<rparr>))"

definition on_paragraph :: "handle \<Rightarrow> (par \<Rightarrow> error + par) \<Rightarrow> unit action" where
  "on_paragraph h f =
     on_body h (\<lambda>el. case el of
        Paragraph p \<Rightarrow> (case f p of Inl e \<Rightarrow> Inl e | Inr p' \<Rightarrow> Inr (Paragraph p'))
      | Table _ \<Rightarrow> Inl AttributeError)"

definition on_table :: "handle \<Rightarrow> (tbl \<Rightarrow> error + tbl) \<Rightarrow> unit action" where
  "on_table h f =
     on_body h (\<lambda>el. case el of
        Table t \<Rightarrow> (case f t of Inl e \<Rightarrow> Inl e | Inr t' \<Rightarrow> Inr (Table t'))
      | Paragraph _ \<Rightarrow> Inl AttributeError)"

subsection \<open>The library calls\<close>

definition Document :: document where
  "Document = \<lparr>body = []\<rparr>"

definition new_run :: "string \<Rightarrow> run" where
  "new_run s = \<lparr>run_text = s, bold = None, italic = None\<rparr>"

text \<open>\<open>document.add_paragraph(text='', style=None)\<close>: a run is added only for a
  non-empty text.\<close>

definition new_paragraph :: "string \<Rightarrow> string option \<Rightarrow> par" where
  "new_paragraph s sty =
     \<lparr>style = sty, alignment = None, runs = (if s = [] then [] else [new_run s])\<rparr>"

definition add_paragraph :: "string \<Rightarrow> string option \<Rightarrow> handle action" where
  "add_paragraph s sty = (\<lambda>d.
     Inr (length (body d), d\<lparr>body := body d @ [Paragraph (new_paragraph s sty)]\<rparr>))"

text \<open>\<open>document.add_heading(text, level)\<close>: level 0 is the \<open>Title\<close> style, levels
  1 to 9 are \<open>Heading 1\<close> to \<open>Heading 9\<close>, any other level raises \<open>ValueError\<close>.\<close>

definition heading_style :: "int \<Rightarrow> string" where
  "heading_style level =
     (if level = 0 then ''Title'' else ''Heading '' @ [''0123456789'' ! nat level])"

definition add_heading :: "string \<Rightarrow> int \<Rightarrow> handle action" where
  "add_heading s level =
     (if \<not> (0 \<le> level \<and> level \<le> 9) then (\<lambda>d. Inl ValueError)
      else add_paragraph s (Some (heading_style level)))"

text \<open>\<open>paragraph.alignment = a\<close>\<close>

definition set_alignment :: "handle \<Rightarrow> wd_paragraph_alignment \<Rightarrow> unit action" where
  "set_alignment p a = on_paragraph p (\<lambda>q. Inr (q\<lparr>alignment := Some a\<rparr>))"

text \<open>\<open>paragraph.add_run(text)\<close> appends a run and returns it.\<close>

definition add_run :: "handle \<Rightarrow> string \<Rightarrow> run_handle action" where
  "add_run p s = (\<lambda>d.
     case nth_or_raise (body d) p of
       Inl e \<Rightarrow> Inl e
     | Inr (Table _) \<Rightarrow> Inl AttributeError
     | Inr (Paragraph q) \<Rightarrow>
         and_then (on_paragraph p (\<lambda>q. Inr (q\<lparr>runs := runs q @ [new_run s]\<rparr>)))
           (\<lambda>_. return (p, length (runs q))) d)"

text \<open>\<open>run.bold = b\<close> and \<open>run.italic = b\<close>\<close>

definition set_bold :: "run_handle \<Rightarrow> bool \<Rightarrow> unit action" where
  "set_bold r b =
     on_paragraph (fst r)
       (\<lambda>q. case update_at (snd r) (\<lambda>x. Inr (x\<lparr>bold := Some b\<rparr>)) (runs q) of
               Inl e \<Rightarrow> Inl e
             | Inr rs \<Rightarrow> Inr (q\<lparr>runs := rs\<rparr>))"

definition set_italic :: "run_handle \<Rightarrow> bool \<Rightarrow> unit action" where
  "set_italic r b =
     on_paragraph (fst r)
       (\<lambda>q. case update_at (snd r) (\<lambda>x. Inr (x\<lparr>italic := Some b\<rparr>)) (runs q) of
               Inl e \<Rightarrow> Inl e
             | Inr rs \<Rightarrow> Inr (q\<lparr>runs := rs\<rparr>))"

text \<open>\<open>document.add_table(rows, cols)\<close>: \<open>rows\<close> rows of \<open>cols\<close> cells, each cell
  holding one empty paragraph, and no table style.\<close>

definition new_cell :: cell where
  "new_cell = [\<lparr>style = None, alignment = None, runs = []\<rparr>]"

definition add_table :: "nat \<Rightarrow> nat \<Rightarrow> handle action" where
  "add_table r c = (\<lambda>d.
     Inr (length (body d),
          d\<lparr>body := body d @
             [Table \<lparr>table_style = None, rows = replicate r (replicate c new_cell)\<rparr>]\<rparr>))"

text \<open>\<open>table.style = name\<close>\<close>

definition set_table_style :: "handle \<Rightarrow> string \<Rightarrow> unit action" where
  "set_table_style t name = on_table t (\<lambda>u. Inr (u\<lparr>table_style := Some name\<rparr>))"

text \<open>\<open>table.rows[i].cells[j]\<close>, then an update of that cell: \<open>IndexError\<close> when the
  row or the column does not exist.\<close>

definition on_cell :: "handle \<Rightarrow> nat \<Rightarrow> nat \<Rightarrow> (cell \<Rightarrow> error + cell) \<Rightarrow> unit action" where
  "on_cell t i j f =
     on_table t
       (\<lambda>u. case update_at i (update_at j f) (rows u) of
               Inl e \<Rightarrow> Inl e
             | Inr rs \<Rightarrow> Inr (u\<lparr>rows := rs\<rparr>))"

text \<open>\<open>cell.text = s\<close> replaces the content of the cell by one paragraph with one run
  holding \<open>s\<close>.\<close>

definition set_cell_text :: "handle \<Rightarrow> nat \<Rightarrow> nat \<Rightarrow> string \<Rightarrow> unit action" where
  "set_cell_text t i j s =
     on_cell t i j (\<lambda>_. Inr [\<lparr>style = None, alignment = None, runs = [new_run s]\<rparr>])"

text \<open>\<open>table.rows[i].cells[j].paragraphs[k].runs[l].bold = b\<close>\<close>

definition set_cell_run_bold ::
  "handle \<Rightarrow> nat \<Rightarrow> nat \<Rightarrow> nat \<Rightarrow> nat \<Rightarrow> bool \<Rightarrow> unit action" where
  "set_cell_run_bold t i j k l b =
     on_cell t i j
       (update_at k
          (\<lambda>q. case update_at l (\<lambda>x. Inr (x\<lparr>bold := Some b\<rparr>)) (runs q) of
                  Inl e \<Rightarrow> Inl e
                | Inr rs \<Rightarrow> Inr (q\<lparr>runs := rs\<rparr>)))"

subsection \<open>The file system\<close>

text \<open>
  \<open>document.save(path)\<close> opens the file for writing and writes the package. A file
  holds either a complete document or what a failed write left behind. The
  environment decides whether a path can be opened (permissions, a missing parent
  directory, an invalid path) and whether the disk is full; a relative path is
  resolved against the working directory.
\<close>

datatype file_content = Docx document | Truncated

record fs =
  cwd :: string
  files :: "string \<Rightarrow> file_content option"
  unopenable :: "string list"
  disk_full :: bool

definition resolve :: "string \<Rightarrow> string \<Rightarrow> string" where
  "resolve dir path =
     (case path of
        [] \<Rightarrow> dir
      | c # _ \<Rightarrow> (if c = CHR ''/'' then path else dir @ ''/'' @ path))"

definition save :: "document \<Rightarrow> string \<Rightarrow> fs \<Rightarrow> (error + unit) \<times> fs" where
  "save d path s =
     (let p = resolve (cwd s) path in
      if p \<in> set (unopenable s) then (Inl IOError, s)
      else if disk_full s then (Inl IOError, s\<lparr>files := (files s)(p \<mapsto> Truncated)\<rparr>)
      else (Inr (), s\<lparr>files := (files s)(p \<mapsto> Docx d)\<rparr>))"

section \<open>The script\<close>

subsection \<open>The loops\<close>

text \<open>Lines 75-76, 193-194 and 206-207:
  \<open>for x in xs: document.add_paragraph(x, style='List Bullet')\<close>\<close>

fun bullets_loop :: "string list \<Rightarrow> unit action" where
  "bullets_loop [] = return ()"
| "bullets_loop (x # xs) =
     and_then (add_paragraph x (Some ''List Bullet'')) (\<lambda>_. bullets_loop xs)"

text \<open>Lines 59-63:
  \<open>for i, (key, value) in enumerate(data): row = summary_table.rows[i].cells;
  row[0].text = key; row[1].text = value; row[0].paragraphs[0].runs[0].bold = True\<close>\<close>

fun summary_loop :: "handle \<Rightarrow> nat \<Rightarrow> (string \<times> string) list \<Rightarrow> unit action" where
  "summary_loop summary_table i [] = return ()"
| "summary_loop summary_table i ((key, val) # data) =
     do_all
       [set_cell_text summary_table i 0 key,
        set_cell_text summary_table i 1 val,
        set_cell_run_bold summary_table i 0 0 0 True,
        summary_loop summary_table (i + 1) data]"

text \<open>Lines 87-88 and 165-166:
  \<open>for i, h in enumerate(headers): table.rows[0].cells[i].text = h\<close>\<close>

fun headers_loop :: "handle \<Rightarrow> nat \<Rightarrow> string list \<Rightarrow> unit action" where
  "headers_loop t i [] = return ()"
| "headers_loop t i (h # hs) =
     and_then (set_cell_text t 0 i h) (\<lambda>_. headers_loop t (i + 1) hs)"

text \<open>Lines 97-102 and 175-180:
  \<open>for i, (a, b, c, d) in enumerate(data): cells = table.rows[i+1].cells;
  cells[0].text = a; cells[1].text = b; cells[2].text = c; cells[3].text = d\<close>\<close>

fun data_rows_loop ::
  "handle \<Rightarrow> nat \<Rightarrow> (string \<times> string \<times> string \<times> string) list \<Rightarrow> unit action" where
  "data_rows_loop t i [] = return ()"
| "data_rows_loop t i ((a, b, c, d) # data) =
     do_all
       [set_cell_text t (i + 1) 0 a,
        set_cell_text t (i + 1) 1 b,
        set_cell_text t (i + 1) 2 c,
        set_cell_text t (i + 1) 3 d,
        data_rows_loop t (i + 1) data]"

subsection \<open>The compiled-in data\<close>

definition data :: "(string \<times> string) list" where
  "data =
    [(''Start date'', ''TBD''),
     (''Deadline'', ''TBD''),
     (''Project overview'', ''The goal of this project is to build a conversion-focused website for Edu-Explore to clearly present services (Career Counselling, Study Abroad, Training) and drive consultation bookings. We aim to revive the inactive domain edu-xplore.com and implement an automated booking flow.''),
     (''Project scope'', ''In Scope:\<newline>1. Setup of hosting for edu-xplore.com.\<newline>2. Design and development of Landing Page with conversion CTAs.\<newline>3. Integration of booking engine (Calendly/Google Meet) with Calendar sync.\<newline>4. Creation of service pages: Study Abroad (US, UK, Asia, etc.), Career Counselling, MAX ME Training.\<newline>5. Mobile responsive design.\<newline>\<newline>Not In Scope:\<newline>1. Content writing (text to be provided by client).\<newline>2. Purchase of third-party licenses (hosting, paid booking tools).''),
     (''Project timeline'', ''High-level timeline to be confirmed upon booking tool selection and hosting finalization.''),
     (''Project budget'', ''TBD''),
     (''Risk, constraints, and assumptions'', ''Constraints: Hosting is currently expired and requires immediate renewal.\<newline>Assumptions: Client has access to GoDaddy account for DNS updates.'')]"

definition phases_list :: "string list" where
  "phases_list =
    [''Phase 1: Mobilization & Infrastructure'',
     ''Phase 2: Design & User Flow'',
     ''Phase 3: Development & Integration'',
     ''Phase 4: Launch & Handover'']"

definition m_headers :: "string list" where
  "m_headers = [''Milestone'', ''Description'', ''Start date'', ''Due date'']"

definition m_data :: "(string \<times> string \<times> string \<times> string) list" where
  "m_data =
    [(''Phase 1'', ''Hosting setup & Tool selection'', ''TBD'', ''TBD''),
     (''Phase 2'', ''Wireframes & Design Approval'', ''TBD'', ''TBD''),
     (''Phase 3'', ''Functional Website Build'', ''TBD'', ''TBD''),
     (''Phase 4'', ''Go-Live'', ''TBD'', ''TBD'')]"

definition b_headers :: "string list" where
  "b_headers = [''Invoice'', ''Milestone/phase'', ''Amount'', ''Due date'']"

definition b_data :: "(string \<times> string \<times> string \<times> string) list" where
  "b_data =
    [(''1'', ''Project Initiation (Upfront)'', ''TBD'', ''TBD''),
     (''2'', ''Design Sign-off'', ''TBD'', ''TBD''),
     (''3'', ''Project Completion'', ''TBD'', ''TBD''),
     (''Total'', [], ''TBD'', [])]"

definition risks :: "string list" where
  "risks =
    [''Risks: Delays in hosting renewal may push back the start date.'',
     ''Constraints: The domain edu-xplore.com is valid until 2027, but the site is currently inactive due to expired hosting.'',
     ''Assumptions: Edu-Explore will provide all necessary logos, images, and text content for the service pages.'']"

definition reqs :: "string list" where
  "reqs =
    [''Access: Developer requires access to the GoDaddy domain management console.'',
     ''Certification Info: Client to provide specific details regarding the MAX ME Australian certification for the Training page.'']"

subsection \<open>\<open>create_document\<close>, block by block\<close>

text \<open>Lines 8-10: the title.\<close>

definition title_block :: "unit action" where
  "title_block =
     and_then (add_heading ''Statement of work: Edu-Explore Website Build'' 0)
       (\<lambda>title. set_alignment title LEFT)"

text \<open>Lines 12-19: the metadata paragraph.\<close>

definition metadata :: "unit action" where
  "metadata =
     and_then (add_paragraph [] None) (\<lambda>p.
       do_all
         [and_then (add_run p ''Version: '') (\<lambda>r. set_bold r True),
          stmt (add_run p ''1.0\<newline>''),
          and_then (add_run p ''Date: '') (\<lambda>r. set_bold r True),
          stmt (add_run p ''January 14, 2026\<newline>''),
          and_then (add_run p ''Author: '') (\<lambda>r. set_bold r True),
          stmt (add_run p ''Navaneetha Krishnan R'')])"

text \<open>Lines 21-42: project information.\<close>

definition project_information :: "unit action" where
  "project_information =
     and_then (add_heading ''Project information'' 1) (\<lambda>_.
     and_then (add_table 3 3) (\<lambda>table.
       do_all
         [set_table_style table ''Table Grid'',
          set_cell_text table 0 0 ''Role'',
          set_cell_text table 0 1 ''Name'',
          set_cell_text table 0 2 ''Email and telephone'',
          set_cell_text table 1 0 ''Client point of contact'',
          set_cell_text table 1 1 ''Benita'',
          set_cell_text table 1 2 ''[Client Email] [Client Phone]'',
          set_cell_text table 2 0 ''Agency point of contact'',
          set_cell_text table 2 1 ''Navaneetha Krishnan R'',
          set_cell_text table 2 2 ''[Agency Email] [Agency Phone]'']))"

text \<open>Lines 44-63: project summary.\<close>

definition project_summary :: "unit action" where
  "project_summary =
     and_then (add_heading ''Project summary'' 1) (\<lambda>_.
     and_then (add_table 7 2) (\<lambda>summary_table.
       do_all
         [set_table_style summary_table ''Table Grid'',
          summary_loop summary_table 0 data]))"

text \<open>Lines 65-76: project scope and process.\<close>

definition project_scope_and_process :: "unit action" where
  "project_scope_and_process =
     do_all
       [stmt (add_heading ''Project scope and process'' 1),
        stmt (add_paragraph ''We break the project into 4 key phases to minimize risk through clear checkpoints, reviews, and controls at the beginning and end of a phase.'' None),
        bullets_loop phases_list]"

text \<open>Lines 78-102: project milestones.\<close>

definition project_milestones :: "unit action" where
  "project_milestones =
     and_then (add_heading ''Project milestones'' 1) (\<lambda>_.
     and_then (add_paragraph [] None) (\<lambda>p_italic.
     and_then (add_run p_italic ''Please see Project Plan for a detailed project schedule.'') (\<lambda>r.
     and_then (set_italic r True) (\<lambda>_.
     and_then (add_table 5 4) (\<lambda>milestone_table.
       do_all
         [set_table_style milestone_table ''Table Grid'',
          headers_loop milestone_table 0 m_headers,
          data_rows_loop milestone_table 0 m_data])))))"

text \<open>Lines 104-155: the four phases.\<close>

definition phase_1 :: "unit action" where
  "phase_1 =
     and_then (add_heading ''Phase 1: Mobilization & Infrastructure'' 2) (\<lambda>_.
     and_then (add_paragraph ''Phase description: Finalizing the technical foundation and tools required for the build.'' None) (\<lambda>_.
     and_then (add_table 3 2) (\<lambda>p1_table.
       do_all
         [set_table_style p1_table ''Table Grid'',
          set_cell_text p1_table 0 0 ''Deliverable / task'',
          set_cell_text p1_table 0 1 ''Description'',
          set_cell_text p1_table 1 0 ''Hosting Renewal'',
          set_cell_text p1_table 1 1 ''Assist client in renewing/purchasing hosting for edu-xplore.com.'',
          set_cell_text p1_table 2 0 ''Tool Selection'',
          set_cell_text p1_table 2 1 ''Finalize decision between Calendly vs. Google Meet for booking flow.''])))"

definition phase_2 :: "unit action" where
  "phase_2 =
     and_then (add_heading ''Phase 2: Design & User Flow'' 2) (\<lambda>_.
     and_then (add_paragraph ''Phase description: Defining the visual structure and user journey.'' None) (\<lambda>_.
     and_then (add_table 3 2) (\<lambda>p2_table.
       do_all
         [set_table_style p2_table ''Table Grid'',
          set_cell_text p2_table 0 0 ''Deliverable / task'',
          set_cell_text p2_table 0 1 ''Description'',
          set_cell_text p2_table 1 0 ''Sitemap & Flow'',
          set_cell_text p2_table 1 1 ''Define navigation for Study Abroad, Counselling, and Training tabs.'',
          set_cell_text p2_table 2 0 ''UI Mockups'',
          set_cell_text p2_table 2 1 ''Create visual mockups for the Landing Page with \"Learn More\", \"Call Now\" CTAs.''])))"

definition phase_3 :: "unit action" where
  "phase_3 =
     and_then (add_heading ''Phase 3: Development & Integration'' 2) (\<lambda>_.
     and_then (add_paragraph ''Phase description: Building the actual website pages and connecting functional elements.'' None) (\<lambda>_.
     and_then (add_table 4 2) (\<lambda>p3_table.
       do_all
         [set_table_style p3_table ''Table Grid'',
          set_cell_text p3_table 0 0 ''Deliverable / task'',
          set_cell_text p3_table 0 1 ''Description'',
          set_cell_text p3_table 1 0 ''Landing Page Build'',
          set_cell_text p3_table 1 1 ''Develop primary landing page focused on conversion.'',
          set_cell_text p3_table 2 0 ''Booking Integration'',
          set_cell_text p3_table 2 1 ''Implement booking logic, calendar sync, and WhatsApp/Email notification triggers.'',
          set_cell_text p3_table 3 0 ''Service Pages'',
          set_cell_text p3_table 3 1 ''Build dedicated pages for MAX ME partnership and Country-wise study programs.''])))"

definition phase_4 :: "unit action" where
  "phase_4 =
     and_then (add_heading ''Phase 4: Launch & Handover'' 2) (\<lambda>_.
     and_then (add_paragraph ''Phase description: Final testing and deployment to the live server.'' None) (\<lambda>_.
     and_then (add_table 3 2) (\<lambda>p4_table.
       do_all
         [set_table_style p4_table ''Table Grid'',
          set_cell_text p4_table 0 0 ''Deliverable / task'',
          set_cell_text p4_table 0 1 ''Description'',
          set_cell_text p4_table 1 0 ''Testing'',
          set_cell_text p4_table 1 1 ''Verify mobile responsiveness and booking flow functionality.'',
          set_cell_text p4_table 2 0 ''Go-Live'',
          set_cell_text p4_table 2 1 ''Point domain DNS to new hosting and publish site.''])))"

definition project_phases :: "unit action" where
  "project_phases =
     do_all [stmt (add_heading ''Project phases'' 1), phase_1, phase_2, phase_3, phase_4]"

text \<open>Lines 157-184: budget and billing schedule.\<close>

definition budget :: "unit action" where
  "budget =
     and_then (add_heading ''Project budget and billing schedule'' 1) (\<lambda>_.
     and_then (add_paragraph [] None) (\<lambda>p_budget.
     and_then (add_run p_budget ''If the project budget has been created, list the payments related to the project below.'') (\<lambda>r.
     and_then (set_italic r True) (\<lambda>_.
     and_then (add_table 5 4) (\<lambda>budget_table.
       do_all
         [set_table_style budget_table ''Table Grid'',
          headers_loop budget_table 0 b_headers,
          data_rows_loop budget_table 0 b_data,
          set_cell_run_bold budget_table 4 0 0 0 True,
          set_cell_run_bold budget_table 4 2 0 0 True])))))"

text \<open>Lines 186-207: general risks, change requests, other requirements.\<close>

definition general_risks :: "unit action" where
  "general_risks =
     do_all
       [stmt (add_heading ''General risks, constraints, and assumptions'' 1),
        bullets_loop risks]"

definition change_requests :: "unit action" where
  "change_requests =
     do_all
       [stmt (add_heading ''Change requests'' 1),
        stmt (add_paragraph ''Any changes to the approved scope (e.g., adding payment gateways, new pages not listed, or complex student portals) will be treated as a Change Request. These will be estimated separately and may incur additional costs and timeline extensions.'' None)]"

definition other_requirements :: "unit action" where
  "other_requirements =
     do_all
       [stmt (add_heading ''Other project requirements'' 1),
        bullets_loop reqs]"

text \<open>Lines 6-207: everything \<open>create_document\<close> does to \<open>document\<close> before saving it.\<close>

definition build_steps :: "unit action" where
  "build_steps =
     do_all
       [title_block, metadata, project_information, project_summary,
        project_scope_and_process, project_milestones, project_phases, budget,
        general_risks, change_requests, other_requirements]"

text \<open>The whole function is a straight line: \<open>document = Document()\<close>, the
  statements of lines 8-207, and \<open>document.save('Edu_Explore_Statement_of_Work.docx')\<close>
  at line 209. \<open>run_then_save\<close> is that line of control for any statements in the
  place of lines 8-207: an exception raised by a statement leaves the function before
  \<open>save\<close> is reached, and nothing catches an exception of \<open>save\<close>.\<close>

definition run_then_save :: "unit action \<Rightarrow> string \<Rightarrow> fs \<Rightarrow> (error + unit) \<times> fs" where
  "run_then_save steps path s =
     (case steps Document of
        Inl e \<Rightarrow> (Inl e, s)
      | Inr (_, document) \<Rightarrow> save document path s)"

definition output_name :: string where
  "output_name = ''Edu_Explore_Statement_of_Work.docx''"

definition create_document :: "fs \<Rightarrow> (error + unit) \<times> fs" where
  "create_document = run_then_save build_steps output_name"

section \<open>Reading a document back\<close>

text \<open>
  What the claims observe of a document is what python-docx reads back from it:
  \<open>paragraph.text\<close> is the concatenation of the run texts, \<open>cell.text\<close> joins the
  texts of the cell's paragraphs with newlines, \<open>document.tables\<close> lists the tables of
  the body in order.
\<close>

definition par_text :: "par \<Rightarrow> string" where
  "par_text p = concat (map run_text (runs p))"

fun join_lines :: "string list \<Rightarrow> string" where
  "join_lines [] = []"
| "join_lines [x] = x"
| "join_lines (x # y # ys) = x @ ''\<newline>'' @ join_lines (y # ys)"

definition cell_text :: "cell \<Rightarrow> string" where
  "cell_text c = join_lines (map par_text c)"

definition table_texts :: "tbl \<Rightarrow> string list list" where
  "table_texts t = map (map cell_text) (rows t)"

text \<open>The shape of a table: its number of rows, and the number of cells of each row.\<close>

definition table_shape :: "tbl \<Rightarrow> nat \<times> nat list" where
  "table_shape t = (length (rows t), map length (rows t))"

fun tables_of :: "element list \<Rightarrow> tbl list" where
  "tables_of [] = []"
| "tables_of (Table t # es) = t # tables_of es"
| "tables_of (Paragraph _ # es) = tables_of es"



text \<open>The style flags of every run: for a paragraph the (bold, italic) pair of each
  run, for a table the same for each run of each paragraph of each cell of each row.\<close>

type_synonym flags = "bool option \<times> bool option"

definition run_flags :: "run \<Rightarrow> flags" where
  "run_flags r = (bold r, italic r)"

datatype flags_view = PFlags "flags list" | TFlags "flags list list list list"

fun flags_of :: "element \<Rightarrow> flags_view" where
  "flags_of (Paragraph p) = PFlags (map run_flags (runs p))"
| "flags_of (Table t) = TFlags (map (map (map (\<lambda>p. map run_flags (runs p)))) (rows t))"

text \<open>The three combinations of flags the script produces.\<close>

definition unmarked :: flags where
  "unmarked = (None, None)"

definition bold_only :: flags where
  "bold_only = (Some True, None)"

definition italic_only :: flags where
  "italic_only = (None, Some True)"

definition bold_flags :: "tbl \<Rightarrow> bool option list list list list" where
  "bold_flags t = map (map (map (\<lambda>p. map bold (runs p)))) (rows t)"

text \<open>The document in the file at \<open>path\<close>, when the file holds a complete one.\<close>

definition saved_document :: "string \<Rightarrow> fs \<Rightarrow> document option" where
  "saved_document path s =
     (case files s (resolve (cwd s) path) of Some (Docx d) \<Rightarrow> Some d | _ \<Rightarrow> None)"

text \<open>A file system with no files in which every write succeeds, with working
  directory \<open>dir\<close>.\<close>

definition fresh_fs :: "string \<Rightarrow> fs" where
  "fresh_fs dir = \<lparr>cwd = dir, files = (\<lambda>_. None), unopenable = [], disk_full = False\<rparr>"

text \<open>Where the script's file name lands: the name is relative, so it is resolved
  against the working directory of the process.\<close>

definition destination :: "fs \<Rightarrow> string" where
  "destination s = resolve (cwd s) output_name"

section \<open>What each block appends\<close>

text \<open>The elements the library calls create, named for the statements of the proofs:
  a heading, a plain paragraph and a bullet item with one text, a cell after
  \<open>cell.text = s\<close> (with the bold flag of its run), and a table in the \<open>Table Grid\<close>
  style. \<open>built_document\<close> is the document that reaches \<open>save\<close>.\<close>

definition heading :: "int \<Rightarrow> string \<Rightarrow> element" where
  "heading level s = Paragraph (new_paragraph s (Some (heading_style level)))"

definition plain :: "string \<Rightarrow> element" where
  "plain s = Paragraph (new_paragraph s None)"

definition bullet :: "string \<Rightarrow> element" where
  "bullet s = Paragraph (new_paragraph s (Some ''List Bullet''))"

definition text_cell :: "bool option \<Rightarrow> string \<Rightarrow> cell" where
  "text_cell b s =
     [\<lparr>style = None, alignment = None, runs = [\<lparr>run_text = s, bold = b, italic = None\<rparr>]\<rparr>]"

definition grid :: "cell list list \<Rightarrow> element" where
  "grid rs = Table \<lparr>table_style = Some ''Table Grid'', rows = rs\<rparr>"

definition built_document :: document where
  "built_document =
     (case build_steps Document of Inr (_, document) \<Rightarrow> document | Inl _ \<Rightarrow> Document)"

section \<open>Stepping through the script\<close>

subsection \<open>Handles into a growing body\<close>

lemma update_at_append:
  "update_at (length xs + k) f (xs @ ys) =
     (case update_at k f ys of Inl e \<Rightarrow> Inl e | Inr zs \<Rightarrow> Inr (xs @ zs))"
  by (induction xs) (auto split: sum.splits)

lemma update_at_append0:
  "update_at (length xs) f (xs @ ys) =
     (case update_at 0 f ys of Inl e \<Rightarrow> Inl e | Inr zs \<Rightarrow> Inr (xs @ zs))"
  using update_at_append [of xs 0 f ys] by simp

lemma update_at_append1:
  "update_at (Suc (length xs)) f (xs @ ys) =
     (case update_at 1 f ys of Inl e \<Rightarrow> Inl e | Inr zs \<Rightarrow> Inr (xs @ zs))"
  using update_at_append [of xs 1 f ys] by simp

lemma update_at_append2:
  "update_at (Suc (Suc (length xs))) f (xs @ ys) =
     (case update_at 2 f ys of Inl e \<Rightarrow> Inl e | Inr zs \<Rightarrow> Inr (xs @ zs))"
  using update_at_append [of xs 2 f ys] by simp

lemma nth_or_raise_append:
  "nth_or_raise (xs @ ys) (length xs + k) = nth_or_raise ys k"
  by (simp add: nth_or_raise_def nth_append)

lemma nth_or_raise_append0: "nth_or_raise (xs @ ys) (length xs) = nth_or_raise ys 0"
  using nth_or_raise_append [of xs ys 0] by simp

lemma nth_or_raise_append1: "nth_or_raise (xs @ ys) (Suc (length xs)) = nth_or_raise ys 1"
  using nth_or_raise_append [of xs ys 1] by simp

lemma nth_or_raise_Nil: "nth_or_raise [] i = Inl IndexError"
  by (simp add: nth_or_raise_def)

lemma nth_or_raise_Cons:
  "nth_or_raise (x # xs) i = (if i = 0 then Inr x else nth_or_raise xs (i - 1))"
  by (cases i) (simp_all add: nth_or_raise_def)

subsection \<open>The blocks\<close>

lemmas call_defs = nth_or_raise_Nil nth_or_raise_Cons new_paragraph_def return_def and_then_def stmt_def on_body_def on_paragraph_def on_table_def
  new_run_def add_paragraph_def heading_style_def add_heading_def set_alignment_def
  add_run_def set_bold_def set_italic_def new_cell_def add_table_def set_table_style_def
  on_cell_def set_cell_text_def set_cell_run_bold_def nth_or_raise_append0
  nth_or_raise_append1 update_at_append0 update_at_append1 update_at_append2
  numeral_2_eq_2 numeral_3_eq_3

lemmas shape_defs = heading_def plain_def bullet_def text_cell_def grid_def

lemma bullets_loop_appends:
  "bullets_loop xs d = Inr ((), d\<lparr>body := body d @ map bullet xs\<rparr>)"
  by (induction xs arbitrary: d) (simp_all add: call_defs bullet_def)

lemma title_block_appends:
  "title_block d = Inr ((), d\<lparr>body := body d @
     [Paragraph \<lparr>style = Some ''Title'', alignment = Some LEFT,
        runs = [new_run ''Statement of work: Edu-Explore Website Build'']\<rparr>]\<rparr>)"
  by (simp add: title_block_def call_defs)

lemma metadata_appends:
  "metadata d = Inr ((), d\<lparr>body := body d @
     [Paragraph \<lparr>style = None, alignment = None,
        runs = [\<lparr>run_text = ''Version: '', bold = Some True, italic = None\<rparr>,
                new_run ''1.0\<newline>'',
                \<lparr>run_text = ''Date: '', bold = Some True, italic = None\<rparr>,
                new_run ''January 14, 2026\<newline>'',
                \<lparr>run_text = ''Author: '', bold = Some True, italic = None\<rparr>,
                new_run ''Navaneetha Krishnan R'']\<rparr>]\<rparr>)"
  by (simp add: metadata_def call_defs)

lemma project_information_appends:
  "project_information d = Inr ((), d\<lparr>body := body d @
     [heading 1 ''Project information'',
      grid (map (map (text_cell None))
        [[''Role'', ''Name'', ''Email and telephone''],
         [''Client point of contact'', ''Benita'', ''[Client Email] [Client Phone]''],
         [''Agency point of contact'', ''Navaneetha Krishnan R'', ''[Agency Email] [Agency Phone]'']])]\<rparr>)"
  by (simp add: project_information_def call_defs shape_defs)

lemma project_summary_appends:
  "project_summary d = Inr ((), d\<lparr>body := body d @
     [heading 1 ''Project summary'',
      grid (map (\<lambda>(key, val). [text_cell (Some True) key, text_cell None val]) data)]\<rparr>)"
  by (simp add: project_summary_def data_def call_defs shape_defs eval_nat_numeral)

lemma project_scope_and_process_appends:
  "project_scope_and_process d = Inr ((), d\<lparr>body := body d @
     [heading 1 ''Project scope and process'',
      plain ''We break the project into 4 key phases to minimize risk through clear checkpoints, reviews, and controls at the beginning and end of a phase.'']
     @ map bullet phases_list\<rparr>)"
  by (simp add: project_scope_and_process_def bullets_loop_appends call_defs shape_defs)

lemma project_milestones_appends:
  "project_milestones d = Inr ((), d\<lparr>body := body d @
     [heading 1 ''Project milestones'',
      Paragraph \<lparr>style = None, alignment = None,
        runs = [\<lparr>run_text = ''Please see Project Plan for a detailed project schedule.'',
                 bold = None, italic = Some True\<rparr>]\<rparr>,
      grid (map (map (text_cell None))
        (m_headers # map (\<lambda>(a, b, c, d). [a, b, c, d]) m_data))]\<rparr>)"
  by (simp add: project_milestones_def m_headers_def m_data_def call_defs shape_defs eval_nat_numeral)

lemma phase_1_appends:
  "phase_1 d = Inr ((), d\<lparr>body := body d @
     [heading 2 ''Phase 1: Mobilization & Infrastructure'',
      plain ''Phase description: Finalizing the technical foundation and tools required for the build.'',
      grid (map (map (text_cell None))
        [[''Deliverable / task'', ''Description''],
         [''Hosting Renewal'', ''Assist client in renewing/purchasing hosting for edu-xplore.com.''],
         [''Tool Selection'', ''Finalize decision between Calendly vs. Google Meet for booking flow.'']])]\<rparr>)"
  by (simp add: phase_1_def call_defs shape_defs)

lemma phase_2_appends:
  "phase_2 d = Inr ((), d\<lparr>body := body d @
     [heading 2 ''Phase 2: Design & User Flow'',
      plain ''Phase description: Defining the visual structure and user journey.'',
      grid (map (map (text_cell None))
        [[''Deliverable / task'', ''Description''],
         [''Sitemap & Flow'', ''Define navigation for Study Abroad, Counselling, and Training tabs.''],
         [''UI Mockups'', ''Create visual mockups for the Landing Page with \"Learn More\", \"Call Now\" CTAs.'']])]\<rparr>)"
  by (simp add: phase_2_def call_defs shape_defs)

lemma phase_3_appends:
  "phase_3 d = Inr ((), d\<lparr>body := body d @
     [heading 2 ''Phase 3: Development & Integration'',
      plain ''Phase description: Building the actual website pages and connecting functional elements.'',
      grid (map (map (text_cell None))
        [[''Deliverable / task'', ''Description''],
         [''Landing Page Build'', ''Develop primary landing page focused on conversion.''],
         [''Booking Integration'', ''Implement booking logic, calendar sync, and WhatsApp/Email notification triggers.''],
         [''Service Pages'', ''Build dedicated pages for MAX ME partnership and Country-wise study programs.'']])]\<rparr>)"
  by (simp add: phase_3_def call_defs shape_defs eval_nat_numeral)

lemma phase_4_appends:
  "phase_4 d = Inr ((), d\<lparr>body := body d @
     [heading 2 ''Phase 4: Launch & Handover'',
      plain ''Phase description: Final testing and deployment to the live server.'',
      grid (map (map (text_cell None))
        [[''Deliverable / task'', ''Description''],
         [''Testing'', ''Verify mobile responsiveness and booking flow functionality.''],
         [''Go-Live'', ''Point domain DNS to new hosting and publish site.'']])]\<rparr>)"
  by (simp add: phase_4_def call_defs shape_defs)

lemma budget_appends:
  "budget d = Inr ((), d\<lparr>body := body d @
     [heading 1 ''Project budget and billing schedule'',
      Paragraph \<lparr>style = None, alignment = None,
        runs = [\<lparr>run_text = ''If the project budget has been created, list the payments related to the project below.'',
                 bold = None, italic = Some True\<rparr>]\<rparr>,
      grid (map (map (text_cell None))
              (b_headers # map (\<lambda>(a, b, c, d). [a, b, c, d]) (butlast b_data))
            @ [[text_cell (Some True) ''Total'', text_cell None [],
                text_cell (Some True) ''TBD'', text_cell None []]])]\<rparr>)"
  by (simp add: budget_def b_headers_def b_data_def call_defs shape_defs eval_nat_numeral)

lemma general_risks_appends:
  "general_risks d = Inr ((), d\<lparr>body := body d @
     heading 1 ''General risks, constraints, and assumptions'' # map bullet risks\<rparr>)"
  by (simp add: general_risks_def bullets_loop_appends call_defs shape_defs)

lemma change_requests_appends:
  "change_requests d = Inr ((), d\<lparr>body := body d @
     [heading 1 ''Change requests'',
      plain ''Any changes to the approved scope (e.g., adding payment gateways, new pages not listed, or complex student portals) will be treated as a Change Request. These will be estimated separately and may incur additional costs and timeline extensions.'']\<rparr>)"
  by (simp add: change_requests_def call_defs shape_defs)

lemma other_requirements_appends:
  "other_requirements d = Inr ((), d\<lparr>body := body d @
     heading 1 ''Other project requirements'' # map bullet reqs\<rparr>)"
  by (simp add: other_requirements_def bullets_loop_appends call_defs shape_defs)

lemmas block_appends = title_block_appends metadata_appends project_information_appends
  project_summary_appends project_scope_and_process_appends project_milestones_appends
  phase_1_appends phase_2_appends phase_3_appends phase_4_appends budget_appends
  general_risks_appends change_requests_appends other_requirements_appends

lemma tables_of_append: "tables_of (xs @ ys) = tables_of xs @ tables_of ys"
  by (induction xs rule: tables_of.induct) simp_all


lemmas build_simps = build_steps_def project_phases_def and_then_def
  return_def stmt_def add_heading_def add_paragraph_def Document_def block_appends

lemmas view_simps = shape_defs new_paragraph_def new_run_def heading_style_def par_text_def
  cell_text_def table_texts_def tables_of_append



lemmas data_defs = data_def m_headers_def m_data_def b_headers_def b_data_def
  phases_list_def risks_def reqs_def

lemma build_steps_result: "build_steps Document = Inr ((), built_document)"
  by (simp add: built_document_def build_simps)

lemma create_document_eq: "create_document s = save built_document output_name s"
  by (simp add: create_document_def run_then_save_def build_steps_result)

lemma save_success:
  "fst (save d path s) = Inr () \<Longrightarrow> saved_document path (snd (save d path s)) = Some d"
  by (simp add: save_def saved_document_def Let_def split: if_splits)

lemma fresh_fs_saves: "fst (save d path (fresh_fs dir)) = Inr ()"
  by (simp add: save_def fresh_fs_def Let_def)

lemma written_is_built:
  "fst (create_document s) = Inr () \<Longrightarrow>
   saved_document output_name (snd (create_document s)) = Some built_document"
  by (simp add: create_document_eq save_success)

lemma fresh_fs_succeeds: "fst (create_document (fresh_fs dir)) = Inr ()"
  by (simp add: create_document_eq fresh_fs_saves)

lemma tables_of_bullets: "tables_of (map bullet xs) = []"
  by (induction xs) (simp_all add: bullet_def)

text \<open>The statements of lines 8-207 never raise: the only failure of the function is
  the one of \<open>save\<close>.\<close>

lemma create_document_fails_only_in_save:
  "fst (create_document s) = Inr () \<or> fst (create_document s) = Inl IOError"
  by (simp add: create_document_eq save_def Let_def)

section \<open>The claims\<close>



text \<open>
  C2 (table shape). Whenever \<open>create_document\<close> succeeds, the tables of the document
  in the file it wrote are, in order, the eight tables of the script, each with exactly
  the rows and columns its \<open>add_table\<close> call declared (every row has the declared
  number of cells) and with every cell's text equal to the text the script assigned to
  that cell: the literals of lines 28-42 and 112-155, the pairs of \<open>data\<close>, and the
  header lists and rows of \<open>m_headers\<close>, \<open>m_data\<close>, \<open>b_headers\<close> and \<open>b_data\<close>.
\<close>

theorem tables_keep_shape_and_text:
  assumes "fst (create_document s) = Inr ()"
  shows "map_option (\<lambda>d. map (\<lambda>t. (table_shape t, table_texts t)) (tables_of (body d)))
           (saved_document output_name (snd (create_document s))) = Some
    [((3, [3, 3, 3]),
      [[''Role'', ''Name'', ''Email and telephone''],
       [''Client point of contact'', ''Benita'', ''[Client Email] [Client Phone]''],
       [''Agency point of contact'', ''Navaneetha Krishnan R'', ''[Agency Email] [Agency Phone]'']]),
     ((7, [2, 2, 2, 2, 2, 2, 2]), map (\<lambda>(key, val). [key, val]) data),
     ((5, [4, 4, 4, 4, 4]), m_headers # map (\<lambda>(a, b, c, d). [a, b, c, d]) m_data),
     ((3, [2, 2, 2]),
      [[''Deliverable / task'', ''Description''],
       [''Hosting Renewal'', ''Assist client in renewing/purchasing hosting for edu-xplore.com.''],
       [''Tool Selection'', ''Finalize decision between Calendly vs. Google Meet for booking flow.'']]),
     ((3, [2, 2, 2]),
      [[''Deliverable / task'', ''Description''],
       [''Sitemap & Flow'', ''Define navigation for Study Abroad, Counselling, and Training tabs.''],
       [''UI Mockups'', ''Create visual mockups for the Landing Page with \"Learn More\", \"Call Now\" CTAs.'']]),
     ((4, [2, 2, 2, 2]),
      [[''Deliverable / task'', ''Description''],
       [''Landing Page Build'', ''Develop primary landing page focused on conversion.''],
       [''Booking Integration'', ''Implement booking logic, calendar sync, and WhatsApp/Email notification triggers.''],
       [''Service Pages'', ''Build dedicated pages for MAX ME partnership and Country-wise study programs.'']]),
     ((3, [2, 2, 2]),
      [[''Deliverable / task'', ''Description''],
       [''Testing'', ''Verify mobile responsiveness and booking flow functionality.''],
       [''Go-Live'', ''Point domain DNS to new hosting and publish site.'']]),
     ((5, [4, 4, 4, 4, 4]), b_headers # map (\<lambda>(a, b, c, d). [a, b, c, d]) b_data)]"
    (is "_ = Some ?tables")
proof -
  have "map (\<lambda>t. (table_shape t, table_texts t)) (tables_of (body built_document)) = ?tables"
    by (simp add: built_document_def build_simps view_simps table_shape_def data_defs)
  with written_is_built [OF assms] show ?thesis by simp
qed

theorem tables_keep_shape_and_text_witness:
  "fst (create_document (fresh_fs ''/srv/docs'')) = Inr () \<and>
   map_option (\<lambda>d. map (\<lambda>t. (table_shape t, table_texts t)) (tables_of (body d)))
           (saved_document output_name (snd (create_document (fresh_fs ''/srv/docs'')))) = Some
    [((3, [3, 3, 3]),
      [[''Role'', ''Name'', ''Email and telephone''],
       [''Client point of contact'', ''Benita'', ''[Client Email] [Client Phone]''],
       [''Agency point of contact'', ''Navaneetha Krishnan R'', ''[Agency Email] [Agency Phone]'']]),
     ((7, [2, 2, 2, 2, 2, 2, 2]), map (\<lambda>(key, val). [key, val]) data),
     ((5, [4, 4, 4, 4, 4]), m_headers # map (\<lambda>(a, b, c, d). [a, b, c, d]) m_data),
     ((3, [2, 2, 2]),
      [[''Deliverable / task'', ''Description''],
       [''Hosting Renewal'', ''Assist client in renewing/purchasing hosting for edu-xplore.com.''],
       [''Tool Selection'', ''Finalize decision between Calendly vs. Google Meet for booking flow.'']]),
     ((3, [2, 2, 2]),
      [[''Deliverable / task'', ''Description''],
       [''Sitemap & Flow'', ''Define navigation for Study Abroad, Counselling, and Training tabs.''],
       [''UI Mockups'', ''Create visual mockups for the Landing Page with \"Learn More\", \"Call Now\" CTAs.'']]),
     ((4, [2, 2, 2, 2]),
      [[''Deliverable / task'', ''Description''],
       [''Landing Page Build'', ''Develop primary landing page focused on conversion.''],
       [''Booking Integration'', ''Implement booking logic, calendar sync, and WhatsApp/Email notification triggers.''],
       [''Service Pages'', ''Build dedicated pages for MAX ME partnership and Country-wise study programs.'']]),
     ((3, [2, 2, 2]),
      [[''Deliverable / task'', ''Description''],
       [''Testing'', ''Verify mobile responsiveness and booking flow functionality.''],
       [''Go-Live'', ''Point domain DNS to new hosting and publish site.'']]),
     ((5, [4, 4, 4, 4, 4]), b_headers # map (\<lambda>(a, b, c, d). [a, b, c, d]) b_data)]"
  using tables_keep_shape_and_text [of "fresh_fs ''/srv/docs''"] by (simp add: fresh_fs_succeeds)

text \<open>
  C6 (styling fidelity). Whenever \<open>create_document\<close> succeeds, every run of the
  document in the file it wrote carries exactly the flags the script set on it: bold on
  the three labels of the metadata paragraph (lines 14, 16, 18), on the first-column
  run of each of the seven rows of the summary table (line 63) and on cells 0 and 2 of
  the last row of the budget table (lines 183-184); italic on the run of the two
  notes (lines 81 and 160); and neither flag on every other run. The list follows the
  body top to bottom, one entry per element, as in C1.
\<close>

theorem run_flags_as_marked:
  assumes "fst (create_document s) = Inr ()"
  shows "map_option (\<lambda>d. map flags_of (body d))
           (saved_document output_name (snd (create_document s))) = Some
    ([PFlags [unmarked],
      PFlags [bold_only, unmarked, bold_only, unmarked, bold_only, unmarked],
      PFlags [unmarked],
      TFlags (replicate 3 (replicate 3 [[unmarked]])),
      PFlags [unmarked],
      TFlags (replicate 7 [[[bold_only]], [[unmarked]]]),
      PFlags [unmarked],
      PFlags [unmarked]]
     @ replicate 4 (PFlags [unmarked]) @
     [PFlags [unmarked],
      PFlags [italic_only],
      TFlags (replicate 5 (replicate 4 [[unmarked]])),
      PFlags [unmarked],
      PFlags [unmarked], PFlags [unmarked], TFlags (replicate 3 (replicate 2 [[unmarked]])),
      PFlags [unmarked], PFlags [unmarked], TFlags (replicate 3 (replicate 2 [[unmarked]])),
      PFlags [unmarked], PFlags [unmarked], TFlags (replicate 4 (replicate 2 [[unmarked]])),
      PFlags [unmarked], PFlags [unmarked], TFlags (replicate 3 (replicate 2 [[unmarked]])),
      PFlags [unmarked],
      PFlags [italic_only],
      TFlags (replicate 4 (replicate 4 [[unmarked]])
              @ [[[[bold_only]], [[unmarked]], [[bold_only]], [[unmarked]]]]),
      PFlags [unmarked]]
     @ replicate 3 (PFlags [unmarked]) @
     [PFlags [unmarked],
      PFlags [unmarked],
      PFlags [unmarked]]
     @ replicate 2 (PFlags [unmarked]))"
    (is "_ = Some ?flags")
proof -
  have "map flags_of (body built_document) = ?flags"
    by (simp add: built_document_def build_simps view_simps run_flags_def data_defs
        unmarked_def bold_only_def italic_only_def eval_nat_numeral)
  with written_is_built [OF assms] show ?thesis by simp
qed

theorem run_flags_as_marked_witness:
  "fst (create_document (fresh_fs ''/tmp/out'')) = Inr () \<and>
   map_option (\<lambda>d. map flags_of (body d))
           (saved_document output_name (snd (create_document (fresh_fs ''/tmp/out'')))) = Some
    ([PFlags [unmarked],
      PFlags [bold_only, unmarked, bold_only, unmarked, bold_only, unmarked],
      PFlags [unmarked],
      TFlags (replicate 3 (replicate 3 [[unmarked]])),
      PFlags [unmarked],
      TFlags (replicate 7 [[[bold_only]], [[unmarked]]]),
      PFlags [unmarked],
      PFlags [unmarked]]
     @ replicate 4 (PFlags [unmarked]) @
     [PFlags [unmarked],
      PFlags [italic_only],
      TFlags (replicate 5 (replicate 4 [[unmarked]])),
      PFlags [unmarked],
      PFlags [unmarked], PFlags [unmarked], TFlags (replicate 3 (replicate 2 [[unmarked]])),
      PFlags [unmarked], PFlags [unmarked], TFlags (replicate 3 (replicate 2 [[unmarked]])),
      PFlags [unmarked], PFlags [unmarked], TFlags (replicate 4 (replicate 2 [[unmarked]])),
      PFlags [unmarked], PFlags [unmarked], TFlags (replicate 3 (replicate 2 [[unmarked]])),
      PFlags [unmarked],
      PFlags [italic_only],
      TFlags (replicate 4 (replicate 4 [[unmarked]])
              @ [[[[bold_only]], [[unmarked]], [[bold_only]], [[unmarked]]]]),
      PFlags [unmarked]]
     @ replicate 3 (PFlags [unmarked]) @
     [PFlags [unmarked],
      PFlags [unmarked],
      PFlags [unmarked]]
     @ replicate 2 (PFlags [unmarked]))"
  using run_flags_as_marked [of "fresh_fs ''/tmp/out''"] by (simp add: fresh_fs_succeeds)

text \<open>
  C9 (table style). Whenever \<open>create_document\<close> succeeds, each of the eight tables of
  the document in the file it wrote has the style \<open>Table Grid\<close>; none is left
  without a style. In the script the assignment \<open>table.style = 'Table Grid'\<close> is the
  statement that follows each \<open>add_table\<close> call (the first statement after
  \<open>add_table\<close> in each block above).
\<close>

theorem every_table_is_table_grid:
  assumes "fst (create_document s) = Inr ()"
  shows "map_option (\<lambda>d. map table_style (tables_of (body d)))
           (saved_document output_name (snd (create_document s))) = Some
    [Some ''Table Grid'', Some ''Table Grid'', Some ''Table Grid'', Some ''Table Grid'',
     Some ''Table Grid'', Some ''Table Grid'', Some ''Table Grid'', Some ''Table Grid'']"
    (is "_ = Some ?styles")
proof -
  have "map table_style (tables_of (body built_document)) = ?styles"
    by (simp add: built_document_def build_simps view_simps tables_of_bullets)
  with written_is_built [OF assms] show ?thesis by simp
qed

theorem every_table_is_table_grid_witness:
  "fst (create_document (fresh_fs ''/home/writer'')) = Inr () \<and>
   map_option (\<lambda>d. map table_style (tables_of (body d)))
           (saved_document output_name (snd (create_document (fresh_fs ''/home/writer'')))) = Some
    [Some ''Table Grid'', Some ''Table Grid'', Some ''Table Grid'', Some ''Table Grid'',
     Some ''Table Grid'', Some ''Table Grid'', Some ''Table Grid'', Some ''Table Grid'']"
  using every_table_is_table_grid [of "fresh_fs ''/home/writer''"] by (simp add: fresh_fs_succeeds)

text \<open>
  C10 (summary table). Whenever \<open>create_document\<close> succeeds, the project-summary
  table (the second table of the document) has seven rows, and in each of them the
  first-column cell holds one run whose bold flag is set while the run of the
  second-column cell has no bold flag.
\<close>

theorem summary_keys_bold:
  assumes "fst (create_document s) = Inr ()"
  shows "map_option (\<lambda>d. map bold_flags (take 1 (drop 1 (tables_of (body d)))))
           (saved_document output_name (snd (create_document s))) = Some
    [[[[[Some True]], [[None]]],
      [[[Some True]], [[None]]],
      [[[Some True]], [[None]]],
      [[[Some True]], [[None]]],
      [[[Some True]], [[None]]],
      [[[Some True]], [[None]]],
      [[[Some True]], [[None]]]]]"
    (is "_ = Some ?bold")
proof -
  have "map bold_flags (take 1 (drop 1 (tables_of (body built_document)))) = ?bold"
    by (simp add: built_document_def build_simps view_simps bold_flags_def data_defs)
  with written_is_built [OF assms] show ?thesis by simp
qed

theorem summary_keys_bold_witness:
  "fst (create_document (fresh_fs ''/var/tmp'')) = Inr () \<and>
   map_option (\<lambda>d. map bold_flags (take 1 (drop 1 (tables_of (body d)))))
           (saved_document output_name (snd (create_document (fresh_fs ''/var/tmp'')))) = Some
    [[[[[Some True]], [[None]]],
      [[[Some True]], [[None]]],
      [[[Some True]], [[None]]],
      [[[Some True]], [[None]]],
      [[[Some True]], [[None]]],
      [[[Some True]], [[None]]],
      [[[Some True]], [[None]]]]]"
  using summary_keys_bold [of "fresh_fs ''/var/tmp''"] by (simp add: fresh_fs_succeeds)

text \<open>
  C4 (write failure). If the destination cannot be opened or the disk is full,
  \<open>create_document\<close> fails with \<open>IOError\<close>: the exception of \<open>save\<close> is the
  result of the function, which calls \<open>save\<close> once and catches nothing. The file
  system is then either untouched (the file could not be opened) or holds a truncated
  file at the destination (the write broke off); reading the destination back gives no
  document, or the one that was there before the call, never a document of this run.
\<close>

theorem save_failure_propagates:
  assumes "destination s \<in> set (unopenable s) \<or> disk_full s"
  shows "fst (create_document s) = Inl IOError \<and>
         (snd (create_document s) = s \<or>
          snd (create_document s) = s\<lparr>files := (files s)(destination s \<mapsto> Truncated)\<rparr>) \<and>
         saved_document output_name (snd (create_document s)) \<in>
           {None, saved_document output_name s}"
  using assms
  by (auto simp add: create_document_eq save_def destination_def saved_document_def Let_def)

theorem save_failure_propagates_witness:
  "disk_full ((fresh_fs ''/mnt/full'')\<lparr>disk_full := True\<rparr>) \<and>
   fst (create_document ((fresh_fs ''/mnt/full'')\<lparr>disk_full := True\<rparr>)) = Inl IOError \<and>
   saved_document output_name
     (snd (create_document ((fresh_fs ''/mnt/full'')\<lparr>disk_full := True\<rparr>))) = None \<and>
   destination ((fresh_fs ''/mnt/ro'')\<lparr>unopenable := [''/mnt/ro/Edu_Explore_Statement_of_Work.docx'']\<rparr>)
     \<in> set (unopenable
         ((fresh_fs ''/mnt/ro'')\<lparr>unopenable := [''/mnt/ro/Edu_Explore_Statement_of_Work.docx'']\<rparr>)) \<and>
   create_document
     ((fresh_fs ''/mnt/ro'')\<lparr>unopenable := [''/mnt/ro/Edu_Explore_Statement_of_Work.docx'']\<rparr>)
     = (Inl IOError,
        (fresh_fs ''/mnt/ro'')\<lparr>unopenable := [''/mnt/ro/Edu_Explore_Statement_of_Work.docx'']\<rparr>)"
  using
    save_failure_propagates [of "(fresh_fs ''/mnt/full'')\<lparr>disk_full := True\<rparr>"]
    save_failure_propagates
      [of "(fresh_fs ''/mnt/ro'')\<lparr>unopenable := [''/mnt/ro/Edu_Explore_Statement_of_Work.docx'']\<rparr>"]
  by (simp add: create_document_eq save_def saved_document_def destination_def fresh_fs_def
      resolve_def output_name_def Let_def)




text \<open>
  C7 (frame), as the code has it. \<open>create_document\<close> takes no path: the file name
  \<open>Edu_Explore_Statement_of_Work.docx\<close> is written into line 209. On success the one
  effect is that the file of that name in the working directory now holds the
  document the script built; every other file, the working directory and the rest of
  the file system are as before.
\<close>

theorem only_the_fixed_file_changes:
  assumes "fst (create_document s) = Inr ()"
  shows "\<exists>d. build_steps Document = Inr ((), d) \<and>
             snd (create_document s) = s\<lparr>files := (files s)(destination s \<mapsto> Docx d)\<rparr>"
  using assms
  by (auto simp add: create_document_def run_then_save_def build_steps_result save_def
      destination_def Let_def split: if_splits)

theorem only_the_fixed_file_changes_witness:
  "fst (create_document (fresh_fs ''/home/user'')) = Inr () \<and>
   (\<exists>d. build_steps Document = Inr ((), d) \<and>
        snd (create_document (fresh_fs ''/home/user''))
          = (fresh_fs ''/home/user'')
              \<lparr>files := (files (fresh_fs ''/home/user''))
                 (destination (fresh_fs ''/home/user'') \<mapsto> Docx d)\<rparr>)"
  using only_the_fixed_file_changes [of "fresh_fs ''/home/user''"]
  by (simp add: fresh_fs_succeeds)

text \<open>
  The claim as written speaks of a path the caller supplies. A caller who wants the
  document at \<open>/home/user/out.docx\<close> has no way to say so: after a successful run in
  \<open>/home/user\<close> there is no file of that name, and the document is at
  \<open>/home/user/Edu_Explore_Statement_of_Work.docx\<close>.
\<close>

theorem output_path_is_not_the_callers:
  "fst (create_document (fresh_fs ''/home/user'')) = Inr () \<and>
   files (snd (create_document (fresh_fs ''/home/user''))) ''/home/user/out.docx'' = None \<and>
   files (snd (create_document (fresh_fs ''/home/user'')))
     ''/home/user/Edu_Explore_Statement_of_Work.docx'' \<noteq> None"
  by (simp add: create_document_eq save_def fresh_fs_def Let_def resolve_def output_name_def)




end
